theory Spec2Isabelle
  imports Complex_Main "HOL-Library.Product_Lexorder"
begin

section \<open>Post-processing of a parameter sweep: projector, route renderer, aggregator\<close>

text \<open>
  The three Python modules are embedded function by function. Python and numpy floating
  point numbers are modelled as the real numbers they approximate: rounding is not
  modelled. A numpy array is the list of its entries, and arithmetic between an array and
  a scalar is \<open>map\<close>.
\<close>

subsection \<open>route\_storer.py: the equirectangular projection\<close>

text \<open>\<open>np.radians\<close>: degrees to radians.\<close>

definition radians :: "real \<Rightarrow> real" where
  "radians d = d * pi / 180"

text \<open>The two literals of \<open>__equi_rect_project\<close> (lines 160 to 163).\<close>

definition r_earth :: real where
  "r_earth = 6371"

definition centre_point_deg :: real where
  "centre_point_deg = - 31.952258602714696"

text \<open>
  \<open>__equi_rect_project\<close> (lines 136 to 174). The result is the pair
  (projected latitudes, projected longitudes), in that order, as the source returns it.
\<close>

definition equi_rect_project :: "real list \<Rightarrow> real list \<Rightarrow> real list \<times> real list" where
  "equi_rect_project latitudes longitudes =
     (let center_latitude_radians = radians centre_point_deg;
          longitudes_radians = map radians longitudes;
          latitudes_radians = map radians latitudes;
          longitudes' = map (\<lambda>l. r_earth * l * cos center_latitude_radians) longitudes_radians;
          latitudes' = map (\<lambda>l. r_earth * l) latitudes_radians
      in (latitudes', longitudes'))"

subsection \<open>Exceptions and written files\<close>

text \<open>
  The exceptions the modelled code can raise: \<open>KeyError\<close> of a dictionary or label
  lookup (with the missing key), \<open>ValueError\<close> and \<open>TypeError\<close> of the pandas,
  seaborn and matplotlib calls.
\<close>

datatype error = KeyError int | ValueError | TypeError

text \<open>
  The result of \<open>DataFrame.pivot\<close>: the sorted distinct index values, the sorted
  distinct column values and one row of cells per index value; a cell no record fills is
  \<open>None\<close> (NaN in pandas).
\<close>

record grid =
  index_values :: "real list"
  column_values :: "real list"
  cells :: "real option list list"

text \<open>
  One \<open>plt.annotate\<close> call with \<open>arrowprops\<close>: matplotlib draws the arrow from
  the point \<open>xytext\<close> to the point \<open>xy\<close>; a point is (x, y).
\<close>

record annotation =
  xy :: "real \<times> real"
  xytext :: "real \<times> real"

text \<open>
  A file written by \<open>plt.savefig\<close>, with what was plotted. \<open>Heatmap\<close> and
  \<open>Contours\<close> carry \<open>file_parts\<close> (the file is
  \<open>data/<prefix>_heatmap_<suffix>\<close>, resp. \<open>_contours_\<close>) and the pivoted grid;
  \<open>RoutePng\<close> carries the folder, the file name, the scattered points as
  (longitudes, latitudes) and the arrows. The file name of a route image is the f-string of
  four values of the row; it is kept as the four values, since Python's \<open>str\<close> of a
  float is not modelled.
\<close>

type_synonym route_name = "real \<times> real \<times> int \<times> real"

datatype artefact =
    Heatmap "string \<times> string" grid
  | Contours "string \<times> string" grid
  | RoutePng string route_name "real list \<times> real list" "annotation list"

text \<open>
  A run of effectful code: the files written so far, in order, and the exception that
  stopped it, if any.
\<close>

type_synonym run = "artefact list \<times> error option"

definition and_then :: "run \<Rightarrow> (artefact list \<Rightarrow> run) \<Rightarrow> run" where
  "and_then r f = (case r of (fs, None) \<Rightarrow> f fs | (fs, Some e) \<Rightarrow> (fs, Some e))"

subsection \<open>route\_storer.py: the route renderer\<close>

text \<open>
  Modelled from the spec: \<open>pydantic_models.RouteInput\<close> is not among the sources; the
  specification gives each entry of its \<open>orders\<close> an integer \<open>order_id\<close> and
  floating point \<open>lat\<close> and \<open>lon\<close> in degrees. The model starts from the validated
  list of orders, not from the JSON file.
\<close>

record order =
  order_id :: int
  lat :: real
  lon :: real

text \<open>The inner dictionary \<open>{"lat": .., "lon": ..}\<close> is the pair (lat, lon).\<close>

type_synonym orders_dict = "int \<rightharpoonup> real \<times> real"

text \<open>
  \<open>__reformat_locations\<close> (lines 49 to 86): the projected latitudes and longitudes of all
  orders, and the dictionary from \<open>order_id\<close> to the unprojected coordinates. In the
  dictionary comprehension a later order with the same id replaces an earlier one.
\<close>

definition reformat_locations :: "order list \<Rightarrow> real list \<times> real list \<times> orders_dict" where
  "reformat_locations orders =
     (let lats = map lat orders;
          longs = map lon orders;
          (lats', longs') = equi_rect_project lats longs;
          d = foldl (\<lambda>m ord. m(order_id ord \<mapsto> (lat ord, lon ord))) Map.empty orders
      in (lats', longs', d))"

text \<open>The four lists \<open>__add_lines\<close> appends to (lines 108 to 111).\<close>

record line_ends =
  start_longs :: "real list"
  start_lat :: "real list"
  end_longs :: "real list"
  end_lats :: "real list"

text \<open>
  The inner loop of \<open>__add_lines\<close> (lines 113 to 120) over the indices still to visit.
  A dictionary lookup of a missing id raises \<open>KeyError\<close>; the start id is looked up
  first.
\<close>

fun add_route :: "orders_dict \<Rightarrow> int list \<Rightarrow> nat list \<Rightarrow> line_ends \<Rightarrow> error + line_ends" where
  "add_route d route [] acc = Inr acc"
| "add_route d route (i # is) acc =
     (let start_id = route ! i; end_id = route ! (i + 1) in
      case d start_id of
        None \<Rightarrow> Inl (KeyError start_id)
      | Some s \<Rightarrow>
         (case d end_id of
            None \<Rightarrow> Inl (KeyError end_id)
          | Some e \<Rightarrow>
              add_route d route is
                \<lparr>start_longs = start_longs acc @ [snd s],
                 start_lat = start_lat acc @ [fst s],
                 end_longs = end_longs acc @ [snd e],
                 end_lats = end_lats acc @ [fst e]\<rparr>))"

text \<open>
  The outer loop (line 112). \<open>range(len(route) - 1)\<close> is empty for a route of length 0
  or 1, as \<open>[0..<length route - 1]\<close> is with the truncating subtraction of \<open>nat\<close>.
\<close>

fun add_routes :: "orders_dict \<Rightarrow> int list list \<Rightarrow> line_ends \<Rightarrow> error + line_ends" where
  "add_routes d [] acc = Inr acc"
| "add_routes d (route # routes) acc =
     (case add_route d route [0..<length route - 1] acc of
        Inl e \<Rightarrow> Inl e
      | Inr acc' \<Rightarrow> add_routes d routes acc')"

text \<open>
  \<open>__add_lines\<close> (lines 89 to 133): the arrows drawn, in order, or the exception of the
  first failed lookup.
\<close>

definition add_lines :: "int list list \<Rightarrow> orders_dict \<Rightarrow> error + annotation list" where
  "add_lines routes d =
     (case add_routes d routes \<lparr>start_longs = [], start_lat = [], end_longs = [], end_lats = []\<rparr> of
        Inl e \<Rightarrow> Inl e
      | Inr acc \<Rightarrow>
          (let (start_lats', start_longs') = equi_rect_project (start_lat acc) (start_longs acc);
               (end_lats', end_longs') = equi_rect_project (end_lats acc) (end_longs acc)
           in Inr (map (\<lambda>i. \<lparr>xy = (end_longs' ! i, end_lats' ! i),
                              xytext = (start_longs' ! i, start_lats' ! i)\<rparr>)
                       [0..<length start_lats'])))"

text \<open>
  \<open>create_graph\<close> (lines 11 to 46), given the orders of the locations file: the route is
  wrapped in a one-element list; the image is saved only if \<open>__add_lines\<close> returns.
\<close>

definition create_graph :: "order list \<Rightarrow> int list \<Rightarrow> string \<Rightarrow> route_name \<Rightarrow> artefact list \<Rightarrow> run" where
  "create_graph locations route folder_name file_name fs =
     (let routes = [route];
          (lats, longs, orders) = reformat_locations locations
      in case add_lines routes orders of
           Inl e \<Rightarrow> (fs, Some e)
         | Inr arrows \<Rightarrow> (fs @ [RoutePng folder_name file_name (longs, lats) arrows], None))"

subsection \<open>The pandas operations the driver uses\<close>

text \<open>
  One row of the input CSV. The \<open>route\<close> column is kept decoded
  (\<open>ast.literal_eval\<close> is not modelled).
\<close>

record trial_record =
  cost_constraint_ratio :: real
  chain_strength :: real
  trial :: int
  relative_cost :: real
  route :: "int list"

text \<open>
  A data frame of trial records is the list of its rows, each with its index label.
  \<open>pd.read_csv\<close> labels the rows 0, 1, 2, ...; boolean filtering keeps the labels.
\<close>

type_synonym frame = "(nat \<times> trial_record) list"

definition read_csv :: "trial_record list \<Rightarrow> frame" where
  "read_csv rows = zip [0..<length rows] rows"

text \<open>The grouping key \<open>["cost_constraint_ratio", "chain_strength"]\<close> of a row.\<close>

definition cell_key :: "nat \<times> trial_record \<Rightarrow> real \<times> real" where
  "cell_key lr = (cost_constraint_ratio (snd lr), chain_strength (snd lr))"

text \<open>
  \<open>DataFrame.groupby\<close> with its default \<open>sort=True\<close>: every row joins the group of its
  key, behind the rows already there; the groups come out by ascending key
  (lexicographic on the two key columns). Only keys that occur get a group.
\<close>

fun insert_group :: "'k \<Rightarrow> 'a \<Rightarrow> ('k \<times> 'a list) list \<Rightarrow> ('k \<times> 'a list) list" where
  "insert_group k v [] = [(k, [v])]"
| "insert_group k v ((k', vs) # gs) =
     (if k = k' then (k', vs @ [v]) # gs else (k', vs) # insert_group k v gs)"

definition groups_of :: "('a \<Rightarrow> 'k) \<Rightarrow> 'a list \<Rightarrow> ('k \<times> 'a list) list" where
  "groups_of key rows = foldl (\<lambda>gs r. insert_group (key r) r gs) [] rows"

definition groupby :: "('a \<Rightarrow> 'k::linorder) \<Rightarrow> 'a list \<Rightarrow> ('k \<times> 'a list) list" where
  "groupby key rows = sort_key fst (groups_of key rows)"

text \<open>The aggregation \<open>"mean"\<close> of a group's values (a group is never empty).\<close>

definition mean :: "real list \<Rightarrow> real" where
  "mean xs = sum_list xs / real (length xs)"

text \<open>
  \<open>Series.idxmin\<close> on one group: the label of the first occurrence of the minimum. The
  scan replaces the candidate only by a strictly smaller value. On an empty series pandas
  raises \<open>ValueError\<close>.
\<close>

fun argmin_from :: "nat \<times> real \<Rightarrow> (nat \<times> real) list \<Rightarrow> nat \<times> real" where
  "argmin_from b [] = b"
| "argmin_from b (x # xs) = argmin_from (if snd x < snd b then x else b) xs"

definition idxmin :: "(nat \<times> real) list \<Rightarrow> error + nat" where
  "idxmin s = (case s of [] \<Rightarrow> Inl ValueError | x # xs \<Rightarrow> Inr (fst (argmin_from x xs)))"

text \<open>A list of results is a result: the first exception wins.\<close>

fun collect :: "(error + 'a) list \<Rightarrow> error + 'a list" where
  "collect [] = Inr []"
| "collect (Inl e # xs) = Inl e"
| "collect (Inr x # xs) = (case collect xs of Inl e \<Rightarrow> Inl e | Inr ys \<Rightarrow> Inr (x # ys))"

text \<open>
  \<open>df.loc[labels]\<close> with a list of labels: for each label in turn, all rows carrying it;
  a label no row carries raises \<open>KeyError\<close>.
\<close>

definition loc_label :: "frame \<Rightarrow> nat \<Rightarrow> error + frame" where
  "loc_label df l =
     (case filter (\<lambda>lr. fst lr = l) df of [] \<Rightarrow> Inl (KeyError (int l)) | rs \<Rightarrow> Inr rs)"

definition loc :: "frame \<Rightarrow> nat list \<Rightarrow> error + frame" where
  "loc df labels =
     (case collect (map (loc_label df) labels) of Inl e \<Rightarrow> Inl e | Inr rss \<Rightarrow> Inr (concat rss))"

subsection \<open>graph\_storer.py: pivot, heatmap and contour plot\<close>

text \<open>
  \<open>df.pivot(index, columns, values)\<close> (lines 33 and 72); the three column names are the
  three accessor functions. pandas raises \<open>ValueError\<close> ("Index contains duplicate
  entries, cannot reshape") when two rows have the same (index, column) pair.
\<close>

definition pivot :: "('r \<Rightarrow> real) \<Rightarrow> ('r \<Rightarrow> real) \<Rightarrow> ('r \<Rightarrow> real) \<Rightarrow> 'r list \<Rightarrow> error + grid" where
  "pivot index column values df =
     (if \<not> distinct (map (\<lambda>r. (index r, column r)) df) then Inl ValueError
      else
        (let idx = sort (remdups (map index df));
             cols = sort (remdups (map column df))
         in Inr \<lparr>index_values = idx, column_values = cols,
                 cells = map (\<lambda>i. map (\<lambda>c. map_option values
                                (find (\<lambda>r. index r = i \<and> column r = c) df)) cols) idx\<rparr>))"

text \<open>
  \<open>save_heatmap\<close> (lines 10 to 46). \<open>sns.heatmap\<close> takes the minimum and maximum of the
  data for its colour scale, which raises \<open>ValueError\<close> on a grid without cells.
\<close>

definition save_heatmap ::
  "'r list \<Rightarrow> ('r \<Rightarrow> real) \<Rightarrow> ('r \<Rightarrow> real) \<Rightarrow> ('r \<Rightarrow> real) \<Rightarrow> string \<times> string \<Rightarrow> artefact list \<Rightarrow> run" where
  "save_heatmap df index column values file_parts fs =
     (case pivot index column values df of
        Inl e \<Rightarrow> (fs, Some e)
      | Inr g \<Rightarrow>
          if index_values g = [] \<or> column_values g = [] then (fs, Some ValueError)
          else (fs @ [Heatmap file_parts g], None))"

text \<open>
  \<open>save_contour_plot\<close> (lines 49 to 90). \<open>plt.contourf\<close> raises \<open>TypeError\<close>
  ("Input z must be at least a (2, 2) shaped array") when the grid has fewer than two rows
  or fewer than two columns.
\<close>

definition save_contour_plot ::
  "'r list \<Rightarrow> ('r \<Rightarrow> real) \<Rightarrow> ('r \<Rightarrow> real) \<Rightarrow> ('r \<Rightarrow> real) \<Rightarrow> string \<times> string \<Rightarrow> artefact list \<Rightarrow> run" where
  "save_contour_plot df index column values file_parts fs =
     (case pivot index column values df of
        Inl e \<Rightarrow> (fs, Some e)
      | Inr g \<Rightarrow>
          if length (index_values g) < 2 \<or> length (column_values g) < 2 then (fs, Some TypeError)
          else (fs @ [Contours file_parts g], None))"

subsection \<open>post\_processing.py: the aggregator and the driver\<close>

text \<open>
  The table of \<open>average\<close> (lines 55 to 59): one row per group, the key and the mean of
  \<open>relative_cost\<close>.
\<close>

definition average_df :: "frame \<Rightarrow> ((real \<times> real) \<times> real) list" where
  "average_df success_df =
     map (\<lambda>(k, g). (k, mean (map (\<lambda>lr. relative_cost (snd lr)) g))) (groupby cell_key success_df)"

text \<open>\<open>average\<close> (lines 43 to 73).\<close>

definition average :: "frame \<Rightarrow> string \<Rightarrow> artefact list \<Rightarrow> run" where
  "average success_df output_file fs =
     and_then
       (save_heatmap (average_df success_df) (\<lambda>r. fst (fst r)) (\<lambda>r. snd (fst r)) snd
          (''avg'', output_file) fs)
       (save_contour_plot (average_df success_df) (\<lambda>r. fst (fst r)) (\<lambda>r. snd (fst r)) snd
          (''avg'', output_file))"

text \<open>
  The table of \<open>best\<close> (lines 87 to 90): \<open>idxmin\<close> per group, then the rows with
  those labels; \<open>reset_index(drop=True)\<close> forgets the labels.
\<close>

definition min_relative_cost_df :: "frame \<Rightarrow> error + trial_record list" where
  "min_relative_cost_df success_df =
     (case collect (map (\<lambda>(k, g). idxmin (map (\<lambda>lr. (fst lr, relative_cost (snd lr))) g))
                        (groupby cell_key success_df)) of
        Inl e \<Rightarrow> Inl e
      | Inr idx \<Rightarrow> (case loc success_df idx of Inl e \<Rightarrow> Inl e | Inr rs \<Rightarrow> Inr (map snd rs)))"

text \<open>\<open>best\<close> (lines 76 to 105).\<close>

definition best :: "frame \<Rightarrow> string \<Rightarrow> artefact list \<Rightarrow> run" where
  "best success_df output_file fs =
     (case min_relative_cost_df success_df of
        Inl e \<Rightarrow> (fs, Some e)
      | Inr t \<Rightarrow>
          and_then
            (save_heatmap t cost_constraint_ratio chain_strength relative_cost
               (''best'', output_file) fs)
            (save_contour_plot t cost_constraint_ratio chain_strength relative_cost
               (''best'', output_file)))"

text \<open>
  The table of \<open>failed_occurences\<close> (lines 119 to 127): \<open>None\<close> when no record has
  \<open>relative_cost\<close> -1 (the source then builds no table), otherwise one row per group
  of failed records, the key and the size of the group.
\<close>

definition failed_routes_df :: "frame \<Rightarrow> ((real \<times> real) \<times> nat) list option" where
  "failed_routes_df df =
     (let failed = filter (\<lambda>lr. relative_cost (snd lr) = - 1) df
      in if failed = [] then None
         else Some (map (\<lambda>(k, g). (k, length g)) (groupby cell_key failed)))"

text \<open>\<open>failed_occurences\<close> (lines 108 to 134).\<close>

definition failed_occurences :: "frame \<Rightarrow> string \<Rightarrow> artefact list \<Rightarrow> run" where
  "failed_occurences df output_file fs =
     (case failed_routes_df df of
        None \<Rightarrow> (fs, None)
      | Some t \<Rightarrow>
          save_heatmap t (\<lambda>r. fst (fst r)) (\<lambda>r. snd (fst r)) (\<lambda>r. real (snd r))
            (''fails'', output_file) fs)"

text \<open>
  \<open>visualise_deliveries\<close> (lines 137 to 158): one \<open>create_graph\<close> per row, in order;
  an exception stops the loop.
\<close>

fun visualise_deliveries :: "frame \<Rightarrow> order list \<Rightarrow> artefact list \<Rightarrow> run" where
  "visualise_deliveries [] orders_file fs = (fs, None)"
| "visualise_deliveries ((l, row) # rows) orders_file fs =
     (let filename = (cost_constraint_ratio row, chain_strength row, trial row, relative_cost row);
          route_list = route row
      in case create_graph orders_file route_list ''routes'' filename fs of
           (fs', Some e) \<Rightarrow> (fs', Some e)
         | (fs', None) \<Rightarrow> visualise_deliveries rows orders_file fs')"

text \<open>
  \<open>post_process\<close> (lines 14 to 40), given the rows of the input CSV, the output name and
  the orders of the locations file; it starts with no file written.
\<close>

definition post_process :: "trial_record list \<Rightarrow> string \<Rightarrow> order list \<Rightarrow> run" where
  "post_process rows output_file orders_file =
     (let df = read_csv rows;
          success_df = filter (\<lambda>lr. relative_cost (snd lr) \<noteq> - 1) df
      in and_then
           (and_then
              (and_then (average success_df output_file [])
                 (best success_df output_file))
              (failed_occurences df output_file))
           (visualise_deliveries df orders_file))"

subsection \<open>Properties of the projection\<close>

lemma fst_equi_rect_project:
  "fst (equi_rect_project lats longs) = map (\<lambda>d. r_earth * radians d) lats"
  by (simp add: equi_rect_project_def Let_def comp_def)

lemma snd_equi_rect_project:
  "snd (equi_rect_project lats longs) =
     map (\<lambda>d. r_earth * radians d * cos (radians centre_point_deg)) longs"
  by (simp add: equi_rect_project_def Let_def comp_def)

lemma centre_point_deg_nonzero: "centre_point_deg \<noteq> 0"
  by (simp add: centre_point_deg_def)

text \<open>
  Claim C1. For same-length sequences of latitudes and longitudes in degrees the projector
  returns sequences of that length with, at every position, y = R * lat\_rad and
  x = R * lon\_rad * cos(ref\_lat\_rad), where R = 6371 and the reference latitude is the
  hardcoded constant; empty inputs give empty outputs.
\<close>

theorem equi_rect_project_formula:
  assumes "length lats = length longs"
  shows "length (fst (equi_rect_project lats longs)) = length lats
       \<and> length (snd (equi_rect_project lats longs)) = length longs
       \<and> (\<forall>i < length lats.
            fst (equi_rect_project lats longs) ! i = 6371 * (lats ! i * pi / 180)
          \<and> snd (equi_rect_project lats longs) ! i =
              6371 * (longs ! i * pi / 180) * cos (- 31.952258602714696 * pi / 180))
       \<and> equi_rect_project [] [] = ([], [])"
  using assms
  by (simp add: fst_equi_rect_project snd_equi_rect_project radians_def r_earth_def
      centre_point_deg_def equi_rect_project_def)

theorem equi_rect_project_formula_witness:
  "length [0, 90 :: real] = length [180, 0 :: real]
   \<and> fst (equi_rect_project [0, 90] [180, 0]) ! 1 = 6371 * (90 * pi / 180)
   \<and> snd (equi_rect_project [0, 90] [180, 0]) ! 0 =
       6371 * (180 * pi / 180) * cos (- 31.952258602714696 * pi / 180)
   \<and> length (fst (equi_rect_project [0, 90] [180, 0])) = 2"
proof -
  have h: "length [0, 90 :: real] = length [180, 0 :: real]" by simp
  note t = equi_rect_project_formula [OF h]
  have i1: "(1::nat) < length [0, 90 :: real]" and i0: "(0::nat) < length [0, 90 :: real]"
    by simp_all
  from t i1 have a: "fst (equi_rect_project [0, 90] [180, 0]) ! 1 = 6371 * ([0, 90] ! 1 * pi / 180)"
    by blast
  from t i0 have b: "snd (equi_rect_project [0, 90] [180, 0]) ! 0 =
       6371 * ([180, 0] ! 0 * pi / 180) * cos (- 31.952258602714696 * pi / 180)"
    by blast
  from t have c: "length (fst (equi_rect_project [0, 90] [180, 0])) = length [0, 90 :: real]"
    by blast
  from a have a': "fst (equi_rect_project [0, 90] [180, 0]) ! 1 = 6371 * (90 * pi / 180)"
    by simp
  from b have b': "snd (equi_rect_project [0, 90] [180, 0]) ! 0 =
       6371 * (180 * pi / 180) * cos (- 31.952258602714696 * pi / 180)"
    by (simp only: nth_Cons_0)
  from c have c': "length (fst (equi_rect_project [0, 90] [180, 0])) = 2" by simp
  from h a' b' c' show ?thesis by blast
qed

text \<open>
  Claim C9, as the specification states it: a single projected point has y close to 0 only
  when its latitude is the hardcoded reference latitude. The source never subtracts the
  reference latitude: latitude 0 projects to y = 0 exactly, and 0 is not the reference
  latitude.
\<close>

theorem equi_rect_project_zero_counterexample:
  "fst (equi_rect_project [0] [115]) = [0] \<and> (0 :: real) \<noteq> centre_point_deg"
  by (simp add: fst_equi_rect_project radians_def centre_point_deg_def)

text \<open>
  Claim C9, amended: a single point projects to y = R * lat\_rad and
  x = R * lon\_rad * cos(ref\_lat\_rad). The reference latitude only scales x and is never
  subtracted from the latitude. At latitude 0 the projected y is 0, whatever the longitude.
  At the hardcoded reference latitude y is R * ref\_lat\_rad, which is below -2000 km (about
  -3553 km). Over the reals the magnitude of y is (R * pi / 180) times the magnitude of the
  latitude, at least 70 km per degree, so that y is close to 0 only when the latitude itself
  is close to 0 degrees.
\<close>

theorem equi_rect_project_single_point:
  "equi_rect_project [la] [lo] =
     ([6371 * (la * pi / 180)],
      [6371 * (lo * pi / 180) * cos (- 31.952258602714696 * pi / 180)])
   \<and> equi_rect_project [0] [lo] =
     ([0], [6371 * (lo * pi / 180) * cos (- 31.952258602714696 * pi / 180)])
   \<and> equi_rect_project [centre_point_deg] [lo] =
     ([6371 * (- 31.952258602714696 * pi / 180)],
      [6371 * (lo * pi / 180) * cos (- 31.952258602714696 * pi / 180)])
   \<and> 6371 * (- 31.952258602714696 * pi / 180) < (- 2000 :: real)
   \<and> \<bar>hd (fst (equi_rect_project [la] [lo]))\<bar> = 6371 * pi / 180 * \<bar>la\<bar>
   \<and> 70 * \<bar>la\<bar> \<le> \<bar>hd (fst (equi_rect_project [la] [lo]))\<bar>"
proof -
  have p: "equi_rect_project [x] [lo] =
     ([6371 * (x * pi / 180)],
      [6371 * (lo * pi / 180) * cos (- 31.952258602714696 * pi / 180)])" for x
    by (simp add: equi_rect_project_def Let_def radians_def r_earth_def centre_point_deg_def)
  have a: "equi_rect_project [0] [lo] =
     ([0], [6371 * (lo * pi / 180) * cos (- 31.952258602714696 * pi / 180)])"
    unfolding p by simp
  have b: "equi_rect_project [centre_point_deg] [lo] =
     ([6371 * (- 31.952258602714696 * pi / 180)],
      [6371 * (lo * pi / 180) * cos (- 31.952258602714696 * pi / 180)])"
    unfolding p by (simp add: centre_point_deg_def)
  have pi2: "2 \<le> pi" by (rule pi_ge_two)
  then have "31.952258602714696 * 2 \<le> 31.952258602714696 * pi" by simp
  then have c: "6371 * (- 31.952258602714696 * pi / 180) < (- 2000 :: real)" by simp
  have d: "\<bar>hd (fst (equi_rect_project [la] [lo]))\<bar> = 6371 * pi / 180 * \<bar>la\<bar>"
    unfolding p by (simp add: abs_mult)
  have "70 * \<bar>la\<bar> \<le> 6371 * 2 / 180 * \<bar>la\<bar>"
    by (rule mult_right_mono) simp_all
  also from pi2 have "6371 * 2 / 180 * \<bar>la\<bar> \<le> 6371 * pi / 180 * \<bar>la\<bar>"
    by (intro mult_right_mono) simp_all
  finally have e: "70 * \<bar>la\<bar> \<le> \<bar>hd (fst (equi_rect_project [la] [lo]))\<bar>"
    unfolding d .
  from p [of la] a b c d e show ?thesis by (intro conjI)
qed

text \<open>
  Claim C10. The projection is elementwise: projecting concatenated inputs gives the
  concatenation of the projections, the output pair at a position is the projection of
  the input pair at that position alone, and changing any other entry leaves it unchanged.
\<close>

theorem equi_rect_project_elementwise:
  "equi_rect_project (lats1 @ lats2) (longs1 @ longs2) =
     (fst (equi_rect_project lats1 longs1) @ fst (equi_rect_project lats2 longs2),
      snd (equi_rect_project lats1 longs1) @ snd (equi_rect_project lats2 longs2))
   \<and> (\<forall>i. i < length lats \<and> i < length longs \<longrightarrow>
         equi_rect_project [lats ! i] [longs ! i] =
           ([fst (equi_rect_project lats longs) ! i], [snd (equi_rect_project lats longs) ! i]))
   \<and> (\<forall>i j v w. i < length lats \<and> i < length longs \<and> j \<noteq> i \<longrightarrow>
         fst (equi_rect_project (lats[j := v]) (longs[j := w])) ! i =
           fst (equi_rect_project lats longs) ! i
       \<and> snd (equi_rect_project (lats[j := v]) (longs[j := w])) ! i =
           snd (equi_rect_project lats longs) ! i)"
proof -
  have a: "equi_rect_project (lats1 @ lats2) (longs1 @ longs2) =
     (fst (equi_rect_project lats1 longs1) @ fst (equi_rect_project lats2 longs2),
      snd (equi_rect_project lats1 longs1) @ snd (equi_rect_project lats2 longs2))"
    by (simp add: equi_rect_project_def Let_def)
  have b: "equi_rect_project [lats ! i] [longs ! i] =
           ([fst (equi_rect_project lats longs) ! i], [snd (equi_rect_project lats longs) ! i])"
    if "i < length lats" "i < length longs" for i
    using that by (simp add: equi_rect_project_def Let_def)
  have c: "fst (equi_rect_project (lats[j := v]) (longs[j := w])) ! i =
           fst (equi_rect_project lats longs) ! i
       \<and> snd (equi_rect_project (lats[j := v]) (longs[j := w])) ! i =
           snd (equi_rect_project lats longs) ! i"
    if "i < length lats" "i < length longs" "j \<noteq> i" for i j v w
    using that by (simp add: fst_equi_rect_project snd_equi_rect_project)
  from a b c show ?thesis by blast
qed

theorem equi_rect_project_elementwise_witness:
  "equi_rect_project ([0] @ [90]) ([180] @ [0]) =
     (fst (equi_rect_project [0] [180]) @ fst (equi_rect_project [90] [0]),
      snd (equi_rect_project [0] [180]) @ snd (equi_rect_project [90] [0]))
   \<and> equi_rect_project [[0, 90] ! 1] [[180, 0] ! 1] =
       ([fst (equi_rect_project [0, 90] [180, 0]) ! 1],
        [snd (equi_rect_project [0, 90] [180, 0]) ! 1])
   \<and> fst (equi_rect_project ([0, 90][0 := 45]) ([180, 0][0 := 7])) ! 1 =
       fst (equi_rect_project [0, 90] [180, 0]) ! 1"
proof -
  note t = equi_rect_project_elementwise
    [of "[0]" "[90]" "[180]" "[0]" "[0, 90]" "[180, 0]"]
  have h1: "(1::nat) < length [0, 90 :: real] \<and> 1 < length [180, 0 :: real]" by simp
  have h2: "(1::nat) < length [0, 90 :: real] \<and> 1 < length [180, 0 :: real] \<and> (0::nat) \<noteq> 1"
    by simp
  from t have a: "equi_rect_project ([0] @ [90]) ([180] @ [0]) =
     (fst (equi_rect_project [0] [180]) @ fst (equi_rect_project [90] [0]),
      snd (equi_rect_project [0] [180]) @ snd (equi_rect_project [90] [0]))" by blast
  from t h1 have b: "equi_rect_project [[0, 90] ! 1] [[180, 0] ! 1] =
       ([fst (equi_rect_project [0, 90] [180, 0]) ! 1],
        [snd (equi_rect_project [0, 90] [180, 0]) ! 1])" by blast
  from t h2 have c: "fst (equi_rect_project ([0, 90][0 := 45]) ([180, 0][0 := 7])) ! 1 =
       fst (equi_rect_project [0, 90] [180, 0]) ! 1" by blast
  from a b c show ?thesis by blast
qed

subsection \<open>Grouping\<close>

lemma groups_of_snoc:
  "groups_of key (rows @ [r]) = insert_group (key r) r (groups_of key rows)"
  by (simp add: groups_of_def)

lemma fst_insert_group:
  "map fst (insert_group k v gs) = (if k \<in> set (map fst gs) then map fst gs else map fst gs @ [k])"
  by (induction k v gs rule: insert_group.induct) auto

lemma in_insert_group:
  assumes "distinct (map fst gs)"
  shows "(k', g') \<in> set (insert_group k v gs) \<longleftrightarrow>
         (k' = k \<and> ((k \<notin> fst ` set gs \<and> g' = [v]) \<or> (\<exists>g. (k, g) \<in> set gs \<and> g' = g @ [v])))
       \<or> (k' \<noteq> k \<and> (k', g') \<in> set gs)"
  using assms
  by (induction k v gs rule: insert_group.induct) (auto simp: rev_image_eqI)

lemma groups_of_inv:
  "distinct (map fst (groups_of key rows))
   \<and> set (map fst (groups_of key rows)) = key ` set rows
   \<and> (\<forall>k g. (k, g) \<in> set (groups_of key rows) \<longrightarrow> g = filter (\<lambda>r. key r = k) rows)"
proof (induction rows rule: rev_induct)
  case Nil
  show ?case by (simp add: groups_of_def)
next
  case (snoc r rows)
  let ?gs = "groups_of key rows"
  from snoc have d: "distinct (map fst ?gs)"
    and s: "set (map fst ?gs) = key ` set rows"
    and f: "\<And>k g. (k, g) \<in> set ?gs \<Longrightarrow> g = filter (\<lambda>r. key r = k) rows"
    by blast+
  have d': "distinct (map fst (groups_of key (rows @ [r])))"
    using d by (simp add: groups_of_snoc fst_insert_group)
  have s': "set (map fst (groups_of key (rows @ [r]))) = key ` set (rows @ [r])"
    using s by (auto simp: groups_of_snoc fst_insert_group)
  have f': "g = filter (\<lambda>x. key x = k) (rows @ [r])"
    if "(k, g) \<in> set (groups_of key (rows @ [r]))" for k g
  proof -
    from that have "(k = key r \<and> ((key r \<notin> fst ` set ?gs \<and> g = [r]) \<or> (\<exists>g0. (key r, g0) \<in> set ?gs \<and> g = g0 @ [r])))
       \<or> (k \<noteq> key r \<and> (k, g) \<in> set ?gs)"
      by (simp add: groups_of_snoc in_insert_group [OF d])
    then show ?thesis
    proof (elim disjE conjE exE)
      assume "k = key r" "key r \<notin> fst ` set ?gs" "g = [r]"
      moreover have "filter (\<lambda>x. key x = k) rows = []"
      proof -
        from s have "fst ` set ?gs = key ` set rows" by simp
        with \<open>key r \<notin> fst ` set ?gs\<close> have "key r \<notin> key ` set rows" by simp
        then have "\<forall>x\<in>set rows. key x \<noteq> key r" by (metis imageI)
        with \<open>k = key r\<close> show ?thesis by (simp add: filter_empty_conv)
      qed
      ultimately show ?thesis by simp
    next
      fix g0 assume "k = key r" "(key r, g0) \<in> set ?gs" "g = g0 @ [r]"
      then show ?thesis using f by simp
    next
      assume "k \<noteq> key r" "(k, g) \<in> set ?gs"
      then show ?thesis using f by simp
    qed
  qed
  from d' s' f' show ?case by blast
qed

lemma groupby_keys:
  "map fst (groupby key rows) = sort (remdups (map key rows))"
proof -
  have d: "distinct (map fst (groups_of key rows))"
    and s: "set (map fst (groups_of key rows)) = key ` set rows"
    using groups_of_inv [of key rows] by blast+
  have "sorted (map fst (groupby key rows))"
    by (simp add: groupby_def sorted_sort_key)
  moreover have "distinct (map fst (groupby key rows))"
    using d by (simp add: groupby_def distinct_map)
  moreover have "set (map fst (groupby key rows)) = set (sort (remdups (map key rows)))"
    using s by (simp add: groupby_def)
  ultimately show ?thesis
    by (intro sorted_distinct_set_unique) simp_all
qed

lemma groupby_group:
  assumes "(k, g) \<in> set (groupby key rows)"
  shows "g = filter (\<lambda>r. key r = k) rows"
  using assms groups_of_inv [of key rows] by (simp add: groupby_def)

lemma groupby_eq:
  "groupby key rows =
     map (\<lambda>k. (k, filter (\<lambda>r. key r = k) rows)) (sort (remdups (map key rows)))"
proof -
  have "groupby key rows = map (\<lambda>p. (fst p, snd p)) (groupby key rows)" by simp
  also have "\<dots> = map (\<lambda>p. (fst p, filter (\<lambda>r. key r = fst p) rows)) (groupby key rows)"
    by (rule map_cong) (auto dest: groupby_group)
  also have "\<dots> = map (\<lambda>k. (k, filter (\<lambda>r. key r = k) rows)) (map fst (groupby key rows))"
    by (simp add: comp_def)
  finally show ?thesis by (simp only: groupby_keys)
qed

subsection \<open>Pivot and the two plotters\<close>

lemma sort_remdups_cong:
  fixes xs ys :: "'a::linorder list"
  assumes "set xs = set ys"
  shows "sort (remdups xs) = sort (remdups ys)"
  by (rule sorted_distinct_set_unique) (simp_all add: assms)

lemma find_keyed:
  "find (\<lambda>r. fst (fst r) = i \<and> snd (fst r) = c) (map (\<lambda>k. (k, f k)) ks) =
     (if (i, c) \<in> set ks then Some ((i, c), f (i, c)) else None)"
  by (induction ks) (auto simp: prod_eq_iff)

lemma pivot_keyed:
  assumes "distinct ks"
  shows "pivot (\<lambda>r. fst (fst r)) (\<lambda>r. snd (fst r)) val (map (\<lambda>k. (k, f k)) ks) =
     Inr \<lparr>index_values = sort (remdups (map fst ks)),
          column_values = sort (remdups (map snd ks)),
          cells = map (\<lambda>i. map (\<lambda>c. if (i, c) \<in> set ks then Some (val ((i, c), f (i, c))) else None)
                                 (sort (remdups (map snd ks))))
                      (sort (remdups (map fst ks)))\<rparr>"
proof -
  have "map (\<lambda>r. (fst (fst r), snd (fst r))) (map (\<lambda>k. (k, f k)) ks) = ks"
    by (simp add: comp_def)
  with assms show ?thesis
    by (simp add: pivot_def Let_def comp_def find_keyed)
qed

lemma and_then_plots:
  assumes "pivot i c v t = Inr g"
  shows "and_then (save_heatmap t i c v parts fs) (save_contour_plot t i c v parts) =
     (if index_values g = [] \<or> column_values g = [] then (fs, Some ValueError)
      else if length (index_values g) < 2 \<or> length (column_values g) < 2
           then (fs @ [Heatmap parts g], Some TypeError)
           else (fs @ [Heatmap parts g, Contours parts g], None))"
  using assms by (simp add: and_then_def save_heatmap_def save_contour_plot_def)

lemma sort_remdups_eq_Nil: "(sort (remdups xs) = []) = (xs = [])"
proof -
  have "set (sort (remdups xs)) = set xs" by simp
  then show ?thesis by (metis set_empty)
qed

lemma cell_key_in_keys:
  "((r, c) \<in> set (sort (remdups (map cell_key df)))) = (filter (\<lambda>lr. cell_key lr = (r, c)) df \<noteq> [])"
proof -
  have "((r, c) \<in> cell_key ` set df) = (\<exists>lr\<in>set df. cell_key lr = (r, c))"
    by (rule image_iff [THEN trans]) (metis)
  then show ?thesis by (simp add: filter_empty_conv)
qed

lemma index_of_keys:
  "sort (remdups (map fst (sort (remdups (map cell_key df))))) =
     sort (remdups (map (\<lambda>lr. cost_constraint_ratio (snd lr)) df))"
  by (rule sort_remdups_cong) (force simp: cell_key_def)

lemma column_of_keys:
  "sort (remdups (map snd (sort (remdups (map cell_key df))))) =
     sort (remdups (map (\<lambda>lr. chain_strength (snd lr)) df))"
  by (rule sort_remdups_cong) (force simp: cell_key_def)

subsection \<open>Aggregator: average\<close>

lemma average_df_eq:
  "average_df df =
     map (\<lambda>k. (k, mean (map (\<lambda>lr. relative_cost (snd lr)) (filter (\<lambda>lr. cell_key lr = k) df))))
         (sort (remdups (map cell_key df)))"
  by (simp add: average_df_def groupby_eq comp_def)

lemma avg_cell:
  "(if (r, c) \<in> set (sort (remdups (map cell_key df)))
    then Some (snd ((r, c), mean (map (\<lambda>lr. relative_cost (snd lr)) (filter (\<lambda>lr. cell_key lr = (r, c)) df))))
    else None) =
   (if filter (\<lambda>lr. cell_key lr = (r, c)) df = [] then None
    else Some ((\<Sum>lr\<leftarrow>filter (\<lambda>lr. cell_key lr = (r, c)) df. relative_cost (snd lr))
                / real (length (filter (\<lambda>lr. cell_key lr = (r, c)) df))))"
  unfolding cell_key_in_keys by (simp only: mean_def snd_conv length_map if_not_P split: if_split) simp

text \<open>
  Claim C2. average groups the table it is given (the driver gives it the records with
  relative_cost other than -1) by (cost_constraint_ratio, chain_strength) and pivots the
  group means: the grid it plots has the sorted distinct ratios as rows, the sorted distinct
  strengths as columns, and in each cell the sum of relative_cost over the cell's group
  divided by the size of the group, or no value when the group is empty. A group whose
  relative_cost values are 10, 20, 30 gives a cell holding exactly 20. The table is not
  returned: the grid is written as the heatmap avg and then as the contour plot avg. An
  empty table ends in ValueError with nothing written, and a grid with fewer than two rows
  or fewer than two columns ends in TypeError after the heatmap, because contourf refuses
  it.
\<close>

theorem average_writes_group_means:
  "\<exists>g.
      index_values g = sort (remdups (map (\<lambda>lr. cost_constraint_ratio (snd lr)) success_df))
    \<and> column_values g = sort (remdups (map (\<lambda>lr. chain_strength (snd lr)) success_df))
    \<and> cells g =
        map (\<lambda>r. map (\<lambda>c.
              if filter (\<lambda>lr. cell_key lr = (r, c)) success_df = [] then None
              else Some ((\<Sum>lr\<leftarrow>filter (\<lambda>lr. cell_key lr = (r, c)) success_df. relative_cost (snd lr))
                         / real (length (filter (\<lambda>lr. cell_key lr = (r, c)) success_df))))
            (column_values g)) (index_values g)
    \<and> average success_df output_file fs =
        (if success_df = [] then (fs, Some ValueError)
         else if length (index_values g) < 2 \<or> length (column_values g) < 2
              then (fs @ [Heatmap (''avg'', output_file) g], Some TypeError)
              else (fs @ [Heatmap (''avg'', output_file) g, Contours (''avg'', output_file) g], None))
    \<and> (\<forall>r c. map (\<lambda>lr. relative_cost (snd lr)) (filter (\<lambda>lr. cell_key lr = (r, c)) success_df)
                 = [10, 20, 30] \<longrightarrow>
          (\<exists>i j. i < length (index_values g) \<and> j < length (column_values g)
               \<and> index_values g ! i = r \<and> column_values g ! j = c
               \<and> cells g ! i ! j = Some 20))"
proof -
  let ?grp = "\<lambda>k. filter (\<lambda>lr. cell_key lr = k) success_df"
  let ?M = "\<lambda>k. mean (map (\<lambda>lr. relative_cost (snd lr)) (?grp k))"
  let ?keys = "sort (remdups (map cell_key success_df))"
  let ?iv = "sort (remdups (map (\<lambda>lr. cost_constraint_ratio (snd lr)) success_df))"
  let ?cv = "sort (remdups (map (\<lambda>lr. chain_strength (snd lr)) success_df))"
  let ?cell = "\<lambda>r c. if ?grp (r, c) = [] then None
       else Some ((\<Sum>lr\<leftarrow>?grp (r, c). relative_cost (snd lr)) / real (length (?grp (r, c))))"
  let ?g = "\<lparr>index_values = ?iv, column_values = ?cv,
            cells = map (\<lambda>r. map (\<lambda>c. ?cell r c) ?cv) ?iv\<rparr>"
  have t: "average_df success_df = map (\<lambda>k. (k, ?M k)) ?keys"
    by (rule average_df_eq)
  have d: "distinct ?keys" by simp
  have p: "pivot (\<lambda>r. fst (fst r)) (\<lambda>r. snd (fst r)) snd (average_df success_df) = Inr ?g"
    unfolding t pivot_keyed [OF d] index_of_keys column_of_keys avg_cell ..
  have e: "(?iv = [] \<or> ?cv = []) = (success_df = [])"
    by (simp add: sort_remdups_eq_Nil)
  have run: "average success_df output_file fs =
        (if success_df = [] then (fs, Some ValueError)
         else if length ?iv < 2 \<or> length ?cv < 2
              then (fs @ [Heatmap (''avg'', output_file) ?g], Some TypeError)
              else (fs @ [Heatmap (''avg'', output_file) ?g, Contours (''avg'', output_file) ?g], None))"
    unfolding average_def and_then_plots [OF p] using e by simp
  have ex: "\<exists>i j. i < length ?iv \<and> j < length ?cv \<and> ?iv ! i = r \<and> ?cv ! j = c
               \<and> map (\<lambda>r. map (\<lambda>c. ?cell r c) ?cv) ?iv ! i ! j = Some 20"
    if h: "map (\<lambda>lr. relative_cost (snd lr)) (?grp (r, c)) = [10, 20, 30]" for r c
  proof -
    from h have ne: "?grp (r, c) \<noteq> []" by auto
    then obtain lr where lr: "lr \<in> set success_df" "cell_key lr = (r, c)"
      by (auto simp: filter_empty_conv)
    then have "r \<in> set ?iv" "c \<in> set ?cv" by (force simp: cell_key_def)+
    then obtain i j where ij: "i < length ?iv" "?iv ! i = r" "j < length ?cv" "?cv ! j = c"
      by (metis in_set_conv_nth)
    have "sum_list (map (\<lambda>lr. relative_cost (snd lr)) (?grp (r, c))) = sum_list [10, 20, 30]"
      by (simp only: h)
    then have s: "(\<Sum>lr\<leftarrow>?grp (r, c). relative_cost (snd lr)) = 60" by simp
    have "length (map (\<lambda>lr. relative_cost (snd lr)) (?grp (r, c))) = length [10, 20, 30 :: real]"
      by (simp only: h)
    then have l: "length (?grp (r, c)) = 3" by simp
    from ne s l have v: "?cell r c = Some 20" by simp
    from ij have "map (\<lambda>r. map (\<lambda>c. ?cell r c) ?cv) ?iv ! i ! j = ?cell r c"
      by (simp only: nth_map)
    with v have "map (\<lambda>r. map (\<lambda>c. ?cell r c) ?cv) ?iv ! i ! j = Some 20"
      by (simp only:)
    with ij show ?thesis by blast
  qed
  from run ex show ?thesis
    by (intro exI [of _ ?g]) simp
qed

theorem average_writes_group_means_witness:
  "average (read_csv
      [\<lparr>cost_constraint_ratio = 1, chain_strength = 2, trial = 0, relative_cost = 10, route = [1, 2]\<rparr>,
       \<lparr>cost_constraint_ratio = 0, chain_strength = 5, trial = 0, relative_cost = 7, route = [2, 1]\<rparr>,
       \<lparr>cost_constraint_ratio = 1, chain_strength = 2, trial = 1, relative_cost = 20, route = [1, 2]\<rparr>,
       \<lparr>cost_constraint_ratio = 1, chain_strength = 2, trial = 2, relative_cost = 30, route = [1, 2]\<rparr>])
     ''out'' []
   = ([Heatmap (''avg'', ''out'')
         \<lparr>index_values = [0, 1], column_values = [2, 5], cells = [[None, Some 7], [Some 20, None]]\<rparr>,
       Contours (''avg'', ''out'')
         \<lparr>index_values = [0, 1], column_values = [2, 5], cells = [[None, Some 7], [Some 20, None]]\<rparr>],
      None)"
proof -
  let ?df = "read_csv
      [\<lparr>cost_constraint_ratio = 1, chain_strength = 2, trial = 0, relative_cost = 10, route = [1, 2]\<rparr>,
       \<lparr>cost_constraint_ratio = 0, chain_strength = 5, trial = 0, relative_cost = 7, route = [2, 1]\<rparr>,
       \<lparr>cost_constraint_ratio = 1, chain_strength = 2, trial = 1, relative_cost = 20, route = [1, 2]\<rparr>,
       \<lparr>cost_constraint_ratio = 1, chain_strength = 2, trial = 2, relative_cost = 30, route = [1, 2]\<rparr>]"
  have df: "?df =
      [(0, \<lparr>cost_constraint_ratio = 1, chain_strength = 2, trial = 0, relative_cost = 10, route = [1, 2]\<rparr>),
       (1, \<lparr>cost_constraint_ratio = 0, chain_strength = 5, trial = 0, relative_cost = 7, route = [2, 1]\<rparr>),
       (2, \<lparr>cost_constraint_ratio = 1, chain_strength = 2, trial = 1, relative_cost = 20, route = [1, 2]\<rparr>),
       (3, \<lparr>cost_constraint_ratio = 1, chain_strength = 2, trial = 2, relative_cost = 30, route = [1, 2]\<rparr>)]"
    by (simp add: read_csv_def upt_rec)
  have iv: "sort (remdups (map (\<lambda>lr. cost_constraint_ratio (snd lr)) ?df)) = [0, 1]"
    by (simp add: df)
  have cv: "sort (remdups (map (\<lambda>lr. chain_strength (snd lr)) ?df)) = [2, 5]"
    by (simp add: df)
  have ne: "?df \<noteq> []" by (simp add: df)
  have h: "map (\<lambda>lr. relative_cost (snd lr)) (filter (\<lambda>lr. cell_key lr = (1, 2)) ?df) = [10, 20, 30]"
    by (simp add: df cell_key_def)
  from average_writes_group_means [of ?df "''out''" "[]"] obtain g where
        gi: "index_values g = sort (remdups (map (\<lambda>lr. cost_constraint_ratio (snd lr)) ?df))"
    and gc: "column_values g = sort (remdups (map (\<lambda>lr. chain_strength (snd lr)) ?df))"
    and gv: "cells g =
        map (\<lambda>r. map (\<lambda>c.
              if filter (\<lambda>lr. cell_key lr = (r, c)) ?df = [] then None
              else Some ((\<Sum>lr\<leftarrow>filter (\<lambda>lr. cell_key lr = (r, c)) ?df. relative_cost (snd lr))
                         / real (length (filter (\<lambda>lr. cell_key lr = (r, c)) ?df))))
            (column_values g)) (index_values g)"
    and run: "average ?df ''out'' [] =
        (if ?df = [] then ([], Some ValueError)
         else if length (index_values g) < 2 \<or> length (column_values g) < 2
              then ([] @ [Heatmap (''avg'', ''out'') g], Some TypeError)
              else ([] @ [Heatmap (''avg'', ''out'') g, Contours (''avg'', ''out'') g], None))"
    and ex: "\<forall>r c. map (\<lambda>lr. relative_cost (snd lr)) (filter (\<lambda>lr. cell_key lr = (r, c)) ?df)
                 = [10, 20, 30] \<longrightarrow>
          (\<exists>i j. i < length (index_values g) \<and> j < length (column_values g)
               \<and> index_values g ! i = r \<and> column_values g ! j = c
               \<and> cells g ! i ! j = Some 20)"
    by (elim exE conjE)
  from ex [rule_format, OF h] obtain i j where
    ij: "i < length (index_values g)" "j < length (column_values g)"
        "index_values g ! i = 1" "column_values g ! j = 2" "cells g ! i ! j = Some 20"
    by (elim exE conjE)
  from gi iv have gi': "index_values g = [0, 1]" by (simp only:)
  from gc cv have gc': "column_values g = [2, 5]" by (simp only:)
  from ij(1,3) have i: "i = 1" unfolding gi' by (cases i) auto
  from ij(2,4) have j: "j = 0" unfolding gc' by (cases j) auto
  have c00: "cells g ! 0 ! 0 = None" and c01: "cells g ! 0 ! 1 = Some 7"
    and c11: "cells g ! 1 ! 1 = None" and len: "length (cells g) = 2"
    "length (cells g ! 0) = 2" "length (cells g ! 1) = 2"
    unfolding gv gi' gc' by (simp_all add: df cell_key_def)
  from ij(5) i j have c10: "cells g ! 1 ! 0 = Some 20" by simp
  have "cells g = [cells g ! 0, cells g ! 1]"
    using len(1) by (auto simp: list_eq_iff_nth_eq less_Suc_eq numeral_2_eq_2)
  moreover have "cells g ! 0 = [None, Some 7]"
    using len(2) c00 c01 by (auto simp: list_eq_iff_nth_eq less_Suc_eq numeral_2_eq_2)
  moreover have "cells g ! 1 = [Some 20, None]"
    using len(3) c10 c11 by (auto simp: list_eq_iff_nth_eq less_Suc_eq numeral_2_eq_2)
  ultimately have gv': "cells g = [[None, Some 7], [Some 20, None]]" by simp
  from gi' gc' gv' have g: "g = \<lparr>index_values = [0, 1], column_values = [2, 5],
      cells = [[None, Some 7], [Some 20, None]]\<rparr>" by (cases g) simp
  from run ne show ?thesis unfolding g by simp
qed

subsection \<open>Aggregator: failures\<close>

lemma failed_routes_df_eq:
  "failed_routes_df df =
     (if filter (\<lambda>lr. relative_cost (snd lr) = - 1) df = [] then None
      else Some (map (\<lambda>k. (k, length (filter (\<lambda>lr. cell_key lr = k \<and> relative_cost (snd lr) = - 1) df)))
                     (sort (remdups (map cell_key (filter (\<lambda>lr. relative_cost (snd lr) = - 1) df))))))"
  by (simp add: failed_routes_df_def Let_def groupby_eq comp_def conj_commute)

lemma fails_cell:
  "(if (r, c) \<in> set (sort (remdups (map cell_key (filter (\<lambda>lr. relative_cost (snd lr) = - 1) df))))
    then Some (real (snd ((r, c),
           length (filter (\<lambda>lr. cell_key lr = (r, c) \<and> relative_cost (snd lr) = - 1) df))))
    else None) =
   (if filter (\<lambda>lr. cell_key lr = (r, c) \<and> relative_cost (snd lr) = - 1) df = [] then None
    else Some (real (length (filter (\<lambda>lr. cell_key lr = (r, c) \<and> relative_cost (snd lr) = - 1) df))))"
  unfolding cell_key_in_keys by (simp add: conj_commute)

text \<open>
  Claim C4. failed_occurences keeps exactly the records with relative_cost = -1, groups
  them by (cost_constraint_ratio, chain_strength) and counts each group: the table has one
  row per cell with at least one failed record, holding the number of failed records of that
  cell, and no row for a cell without failed records. The grid it writes as the heatmap fails
  has the ratios and strengths of the failed records as rows and columns, the count in each
  cell that has failed records and no value elsewhere; no contour plot is written. When the
  table has no failed record, no table is built and nothing is written.
\<close>

theorem failed_occurences_counts:
  "\<exists>g.
      failed_routes_df df =
        (if filter (\<lambda>lr. relative_cost (snd lr) = - 1) df = [] then None
         else Some (map (\<lambda>k. (k, length (filter (\<lambda>lr. cell_key lr = k \<and> relative_cost (snd lr) = - 1) df)))
                (sort (remdups (map cell_key (filter (\<lambda>lr. relative_cost (snd lr) = - 1) df))))))
    \<and> index_values g = sort (remdups (map (\<lambda>lr. cost_constraint_ratio (snd lr))
                                 (filter (\<lambda>lr. relative_cost (snd lr) = - 1) df)))
    \<and> column_values g = sort (remdups (map (\<lambda>lr. chain_strength (snd lr))
                                 (filter (\<lambda>lr. relative_cost (snd lr) = - 1) df)))
    \<and> cells g =
        map (\<lambda>r. map (\<lambda>c.
              if filter (\<lambda>lr. cell_key lr = (r, c) \<and> relative_cost (snd lr) = - 1) df = [] then None
              else Some (real (length
                     (filter (\<lambda>lr. cell_key lr = (r, c) \<and> relative_cost (snd lr) = - 1) df))))
            (column_values g)) (index_values g)
    \<and> failed_occurences df output_file fs =
        (if filter (\<lambda>lr. relative_cost (snd lr) = - 1) df = [] then (fs, None)
         else (fs @ [Heatmap (''fails'', output_file) g], None))"
proof -
  let ?failed = "filter (\<lambda>lr. relative_cost (snd lr) = - 1) df"
  let ?cnt = "\<lambda>k. length (filter (\<lambda>lr. cell_key lr = k \<and> relative_cost (snd lr) = - 1) df)"
  let ?keys = "sort (remdups (map cell_key ?failed))"
  let ?iv = "sort (remdups (map (\<lambda>lr. cost_constraint_ratio (snd lr)) ?failed))"
  let ?cv = "sort (remdups (map (\<lambda>lr. chain_strength (snd lr)) ?failed))"
  let ?cell = "\<lambda>r c. if filter (\<lambda>lr. cell_key lr = (r, c) \<and> relative_cost (snd lr) = - 1) df = []
       then None else Some (real (?cnt (r, c)))"
  let ?g = "\<lparr>index_values = ?iv, column_values = ?cv,
            cells = map (\<lambda>r. map (\<lambda>c. ?cell r c) ?cv) ?iv\<rparr>"
  let ?t = "map (\<lambda>k. (k, ?cnt k)) ?keys"
  have t: "failed_routes_df df = (if ?failed = [] then None else Some ?t)"
    by (rule failed_routes_df_eq)
  have d: "distinct ?keys" by simp
  have p: "pivot (\<lambda>r. fst (fst r)) (\<lambda>r. snd (fst r)) (\<lambda>r. real (snd r)) ?t = Inr ?g"
    unfolding pivot_keyed [OF d] index_of_keys column_of_keys fails_cell ..
  have e: "(?iv = [] \<or> ?cv = []) = (?failed = [])"
    by (simp only: sort_remdups_eq_Nil map_is_Nil_conv simp_thms)
  have run: "failed_occurences df output_file fs =
        (if ?failed = [] then (fs, None) else (fs @ [Heatmap (''fails'', output_file) ?g], None))"
  proof (cases "?failed = []")
    case True
    with t show ?thesis by (simp add: failed_occurences_def)
  next
    case False
    with e have "\<not> (index_values ?g = [] \<or> column_values ?g = [])" by simp
    with False t p show ?thesis by (simp add: failed_occurences_def save_heatmap_def)
  qed
  from t run show ?thesis
    by (intro exI [of _ ?g]) simp
qed

theorem failed_occurences_counts_witness:
  "failed_routes_df (read_csv
      [\<lparr>cost_constraint_ratio = 1, chain_strength = 2, trial = 0, relative_cost = - 1, route = []\<rparr>,
       \<lparr>cost_constraint_ratio = 3, chain_strength = 4, trial = 0, relative_cost = 0, route = [1, 2]\<rparr>,
       \<lparr>cost_constraint_ratio = 1, chain_strength = 2, trial = 1, relative_cost = - 1, route = []\<rparr>,
       \<lparr>cost_constraint_ratio = 1, chain_strength = 2, trial = 2, relative_cost = - 1, route = []\<rparr>])
     = Some [((1, 2), 3)]
   \<and> failed_occurences (read_csv
      [\<lparr>cost_constraint_ratio = 1, chain_strength = 2, trial = 0, relative_cost = - 1, route = []\<rparr>,
       \<lparr>cost_constraint_ratio = 3, chain_strength = 4, trial = 0, relative_cost = 0, route = [1, 2]\<rparr>,
       \<lparr>cost_constraint_ratio = 1, chain_strength = 2, trial = 1, relative_cost = - 1, route = []\<rparr>,
       \<lparr>cost_constraint_ratio = 1, chain_strength = 2, trial = 2, relative_cost = - 1, route = []\<rparr>])
      ''out'' []
     = ([Heatmap (''fails'', ''out'')
           \<lparr>index_values = [1], column_values = [2], cells = [[Some 3]]\<rparr>], None)
   \<and> failed_occurences (read_csv
      [\<lparr>cost_constraint_ratio = 3, chain_strength = 4, trial = 0, relative_cost = 0, route = [1, 2]\<rparr>])
      ''out'' [] = ([], None)"
proof -
  let ?df = "read_csv
      [\<lparr>cost_constraint_ratio = 1, chain_strength = 2, trial = 0, relative_cost = - 1, route = []\<rparr>,
       \<lparr>cost_constraint_ratio = 3, chain_strength = 4, trial = 0, relative_cost = 0, route = [1, 2]\<rparr>,
       \<lparr>cost_constraint_ratio = 1, chain_strength = 2, trial = 1, relative_cost = - 1, route = []\<rparr>,
       \<lparr>cost_constraint_ratio = 1, chain_strength = 2, trial = 2, relative_cost = - 1, route = []\<rparr>]"
  let ?ok = "read_csv
      [\<lparr>cost_constraint_ratio = 3, chain_strength = 4, trial = 0, relative_cost = 0, route = [1, 2]\<rparr>]"
  have df: "?df =
      [(0, \<lparr>cost_constraint_ratio = 1, chain_strength = 2, trial = 0, relative_cost = - 1, route = []\<rparr>),
       (1, \<lparr>cost_constraint_ratio = 3, chain_strength = 4, trial = 0, relative_cost = 0, route = [1, 2]\<rparr>),
       (2, \<lparr>cost_constraint_ratio = 1, chain_strength = 2, trial = 1, relative_cost = - 1, route = []\<rparr>),
       (3, \<lparr>cost_constraint_ratio = 1, chain_strength = 2, trial = 2, relative_cost = - 1, route = []\<rparr>)]"
    by (simp add: read_csv_def upt_rec)
  have ok: "?ok =
      [(0, \<lparr>cost_constraint_ratio = 3, chain_strength = 4, trial = 0, relative_cost = 0, route = [1, 2]\<rparr>)]"
    by (simp add: read_csv_def)
  have fl: "filter (\<lambda>lr. relative_cost (snd lr) = - 1) ?df =
      [(0, \<lparr>cost_constraint_ratio = 1, chain_strength = 2, trial = 0, relative_cost = - 1, route = []\<rparr>),
       (2, \<lparr>cost_constraint_ratio = 1, chain_strength = 2, trial = 1, relative_cost = - 1, route = []\<rparr>),
       (3, \<lparr>cost_constraint_ratio = 1, chain_strength = 2, trial = 2, relative_cost = - 1, route = []\<rparr>)]"
    by (simp add: df)
  have cnt: "length (filter (\<lambda>lr. cell_key lr = (1, 2) \<and> relative_cost (snd lr) = - 1) ?df) = 3"
    by (simp add: df cell_key_def)
  from failed_occurences_counts [of ?df "''out''" "[]"] obtain g where
        tb: "failed_routes_df ?df =
        (if filter (\<lambda>lr. relative_cost (snd lr) = - 1) ?df = [] then None
         else Some (map (\<lambda>k. (k, length (filter (\<lambda>lr. cell_key lr = k \<and> relative_cost (snd lr) = - 1) ?df)))
                (sort (remdups (map cell_key (filter (\<lambda>lr. relative_cost (snd lr) = - 1) ?df))))))"
    and gi: "index_values g = sort (remdups (map (\<lambda>lr. cost_constraint_ratio (snd lr))
                                 (filter (\<lambda>lr. relative_cost (snd lr) = - 1) ?df)))"
    and gc: "column_values g = sort (remdups (map (\<lambda>lr. chain_strength (snd lr))
                                 (filter (\<lambda>lr. relative_cost (snd lr) = - 1) ?df)))"
    and gv: "cells g =
        map (\<lambda>r. map (\<lambda>c.
              if filter (\<lambda>lr. cell_key lr = (r, c) \<and> relative_cost (snd lr) = - 1) ?df = [] then None
              else Some (real (length
                     (filter (\<lambda>lr. cell_key lr = (r, c) \<and> relative_cost (snd lr) = - 1) ?df))))
            (column_values g)) (index_values g)"
    and run: "failed_occurences ?df ''out'' [] =
        (if filter (\<lambda>lr. relative_cost (snd lr) = - 1) ?df = [] then ([], None)
         else ([] @ [Heatmap (''fails'', ''out'') g], None))"
    by (elim exE conjE)
  have gi': "index_values g = [1]" unfolding gi fl by simp
  have gc': "column_values g = [2]" unfolding gc fl by simp
  have cne: "filter (\<lambda>lr. cell_key lr = (1, 2) \<and> relative_cost (snd lr) = - 1) ?df \<noteq> []"
    using cnt by auto
  have gv': "cells g = [[Some 3]]" unfolding gv gi' gc' by (simp add: cnt cne)
  from gi' gc' gv' have g: "g = \<lparr>index_values = [1], column_values = [2], cells = [[Some 3]]\<rparr>"
    by (cases g) simp
  have keys: "sort (remdups (map cell_key (filter (\<lambda>lr. relative_cost (snd lr) = - 1) ?df))) = [(1, 2)]"
    unfolding fl by (simp add: cell_key_def)
  have a: "failed_routes_df ?df = Some [((1, 2), 3)]"
    unfolding tb keys by (simp add: cnt fl)
  have b: "failed_occurences ?df ''out'' [] =
      ([Heatmap (''fails'', ''out'') \<lparr>index_values = [1], column_values = [2], cells = [[Some 3]]\<rparr>], None)"
    unfolding run fl g by simp
  from failed_occurences_counts [of ?ok "''out''" "[]"]
  have c: "failed_occurences ?ok ''out'' [] = ([], None)"
    by (elim exE conjE) (simp add: ok)
  from a b c show ?thesis by (intro conjI)
qed

subsection \<open>Plotters: duplicate cells\<close>

lemma find_distinct_key:
  assumes "distinct (map k df)" and "r \<in> set df"
  shows "find (\<lambda>x. k x = k r) df = Some r"
  using assms by (induction df) (auto simp: image_iff)

lemma find_no_key:
  assumes "\<forall>r\<in>set df. \<not> P r"
  shows "find P df = None"
  using assms by (induction df) auto

lemma pivot_distinct:
  assumes "distinct (map (\<lambda>r. (index r, column r)) df)"
  shows "pivot index column values df =
     Inr \<lparr>index_values = sort (remdups (map index df)),
          column_values = sort (remdups (map column df)),
          cells = map (\<lambda>i. map (\<lambda>c. map_option values
                     (find (\<lambda>r. index r = i \<and> column r = c) df))
                     (sort (remdups (map column df)))) (sort (remdups (map index df)))\<rparr>"
  using assms by (simp add: pivot_def Let_def)

text \<open>
  Claim C7, as the specification states it: on a table with two rows for the same
  (row, column) pair the pivot of the two plotters does not crash and the cell takes the
  value met last. pandas refuses such a table: both plotters end in ValueError and write
  nothing, so that no value wins.
\<close>

theorem pivot_last_wins_counterexample:
  "save_heatmap [((1, 2), 10), ((3, 4), 5), ((1, 2), 20)]
     (\<lambda>r. fst (fst r)) (\<lambda>r. snd (fst r)) snd (''avg'', ''out'') [] = ([], Some ValueError)
   \<and> save_contour_plot [((1, 2), 10), ((3, 4), 5), ((1, 2), 20)]
     (\<lambda>r. fst (fst r)) (\<lambda>r. snd (fst r)) snd (''avg'', ''out'') [] = ([], Some ValueError)"
  by (simp add: save_heatmap_def save_contour_plot_def pivot_def)

text \<open>
  Claim C7, amended: on a table with a duplicate (row, column) pair save_heatmap and
  save_contour_plot both end in ValueError with nothing written. On a table without
  duplicates the pivot succeeds: rows and columns are the sorted distinct keys, the grid is
  rectangular, the cell of each row of the table holds that row's value, and a cell no row
  has is empty; the heatmap is then written unless the table is empty, and the contour plot
  unless the grid has fewer than two rows or two columns.
\<close>

theorem pivot_rejects_duplicates:
  "(\<not> distinct (map (\<lambda>r. (index r, column r)) df) \<longrightarrow>
        save_heatmap df index column values file_parts fs = (fs, Some ValueError)
      \<and> save_contour_plot df index column values file_parts fs = (fs, Some ValueError))
   \<and> (distinct (map (\<lambda>r. (index r, column r)) df) \<longrightarrow>
        (\<exists>g. pivot index column values df = Inr g
           \<and> index_values g = sort (remdups (map index df))
           \<and> column_values g = sort (remdups (map column df))
           \<and> length (cells g) = length (index_values g)
           \<and> (\<forall>i < length (index_values g). length (cells g ! i) = length (column_values g))
           \<and> (\<forall>r\<in>set df. \<forall>i < length (index_values g). \<forall>j < length (column_values g).
                 index_values g ! i = index r \<and> column_values g ! j = column r \<longrightarrow>
                 cells g ! i ! j = Some (values r))
           \<and> (\<forall>i < length (index_values g). \<forall>j < length (column_values g).
                 (\<forall>r\<in>set df. (index r, column r) \<noteq> (index_values g ! i, column_values g ! j)) \<longrightarrow>
                 cells g ! i ! j = None)
           \<and> save_heatmap df index column values file_parts fs =
                (if df = [] then (fs, Some ValueError) else (fs @ [Heatmap file_parts g], None))
           \<and> save_contour_plot df index column values file_parts fs =
                (if length (index_values g) < 2 \<or> length (column_values g) < 2
                 then (fs, Some TypeError) else (fs @ [Contours file_parts g], None))))"
proof -
  let ?k = "\<lambda>r. (index r, column r)"
  let ?iv = "sort (remdups (map index df))"
  let ?cv = "sort (remdups (map column df))"
  let ?cells = "map (\<lambda>i. map (\<lambda>c. map_option values
                     (find (\<lambda>r. index r = i \<and> column r = c) df)) ?cv) ?iv"
  let ?g = "\<lparr>index_values = ?iv, column_values = ?cv, cells = ?cells\<rparr>"
  have dup: "save_heatmap df index column values file_parts fs = (fs, Some ValueError)
      \<and> save_contour_plot df index column values file_parts fs = (fs, Some ValueError)"
    if "\<not> distinct (map ?k df)"
    using that by (simp add: save_heatmap_def save_contour_plot_def pivot_def)
  have ok: "\<exists>g. pivot index column values df = Inr g
           \<and> index_values g = ?iv \<and> column_values g = ?cv
           \<and> length (cells g) = length (index_values g)
           \<and> (\<forall>i < length (index_values g). length (cells g ! i) = length (column_values g))
           \<and> (\<forall>r\<in>set df. \<forall>i < length (index_values g). \<forall>j < length (column_values g).
                 index_values g ! i = index r \<and> column_values g ! j = column r \<longrightarrow>
                 cells g ! i ! j = Some (values r))
           \<and> (\<forall>i < length (index_values g). \<forall>j < length (column_values g).
                 (\<forall>r\<in>set df. (index r, column r) \<noteq> (index_values g ! i, column_values g ! j)) \<longrightarrow>
                 cells g ! i ! j = None)
           \<and> save_heatmap df index column values file_parts fs =
                (if df = [] then (fs, Some ValueError) else (fs @ [Heatmap file_parts g], None))
           \<and> save_contour_plot df index column values file_parts fs =
                (if length (index_values g) < 2 \<or> length (column_values g) < 2
                 then (fs, Some TypeError) else (fs @ [Contours file_parts g], None))"
    if d: "distinct (map ?k df)"
  proof -
    have p: "pivot index column values df = Inr ?g"
      by (rule pivot_distinct [OF d])
    have cell: "?cells ! i ! j = map_option values (find (\<lambda>r. index r = ?iv ! i \<and> column r = ?cv ! j) df)"
      if "i < length ?iv" "j < length ?cv" for i j
      using that by (simp only: nth_map)
    have c1: "?cells ! i ! j = Some (values r)"
      if r: "r \<in> set df" and i: "i < length ?iv" and j: "j < length ?cv"
        and e: "?iv ! i = index r \<and> ?cv ! j = column r" for r i j
    proof -
      have "find (\<lambda>x. ?k x = ?k r) df = Some r"
        by (rule find_distinct_key [OF d r])
      then have "find (\<lambda>x. index x = index r \<and> column x = column r) df = Some r"
        by (simp only: prod.inject)
      with cell [OF i j] e show ?thesis by simp
    qed
    have c2: "?cells ! i ! j = None"
      if i: "i < length ?iv" and j: "j < length ?cv"
        and n: "\<forall>r\<in>set df. (index r, column r) \<noteq> (?iv ! i, ?cv ! j)" for i j
    proof -
      from n have "\<forall>r\<in>set df. \<not> (index r = ?iv ! i \<and> column r = ?cv ! j)" by simp
      then have "find (\<lambda>r. index r = ?iv ! i \<and> column r = ?cv ! j) df = None"
        by (rule find_no_key)
      with cell [OF i j] show ?thesis by simp
    qed
    have l1: "length ?cells = length ?iv" by simp
    have l2: "length (?cells ! i) = length ?cv" if "i < length ?iv" for i
      using that by simp
    have e: "(?iv = [] \<or> ?cv = []) = (df = [])"
      by (metis length_0_conv length_sort map_is_Nil_conv remdups_eq_nil_iff)
    have h: "save_heatmap df index column values file_parts fs =
                (if df = [] then (fs, Some ValueError) else (fs @ [Heatmap file_parts ?g], None))"
      using e by (simp add: save_heatmap_def p)
    have c: "save_contour_plot df index column values file_parts fs =
                (if length ?iv < 2 \<or> length ?cv < 2
                 then (fs, Some TypeError) else (fs @ [Contours file_parts ?g], None))"
      by (simp add: save_contour_plot_def p)
    show ?thesis
      apply (rule exI [of _ ?g])
      apply (simp only: grid.simps)
      apply (intro conjI allI ballI impI)
              apply (rule p)
             apply (rule refl)
            apply (rule refl)
           apply (rule l1)
          apply (erule l2)
         apply (erule (3) c1)
        apply (erule (2) c2)
       apply (rule h)
      apply (rule c)
      done
  qed
  show ?thesis
    apply (rule conjI)
     apply (rule impI)
     apply (erule dup)
    apply (rule impI)
    apply (erule ok)
    done
qed

theorem pivot_rejects_duplicates_witness:
  "save_heatmap [((1, 2), 10), ((1, 2), 20)]
     (\<lambda>r. fst (fst r)) (\<lambda>r. snd (fst r)) snd (''avg'', ''out'') [] = ([], Some ValueError)
   \<and> save_contour_plot [((1, 2), 10), ((1, 2), 20)]
     (\<lambda>r. fst (fst r)) (\<lambda>r. snd (fst r)) snd (''avg'', ''out'') [] = ([], Some ValueError)
   \<and> save_heatmap [((1, 2), 10), ((3, 4), 5), ((1, 4), 6)]
     (\<lambda>r. fst (fst r)) (\<lambda>r. snd (fst r)) snd (''avg'', ''out'') [] =
       ([Heatmap (''avg'', ''out'')
          \<lparr>index_values = [1, 3], column_values = [2, 4],
           cells = [[Some 10, Some 6], [None, Some 5]]\<rparr>], None)
   \<and> save_contour_plot [((1, 2), 10), ((3, 4), 5), ((1, 4), 6)]
     (\<lambda>r. fst (fst r)) (\<lambda>r. snd (fst r)) snd (''avg'', ''out'') [] =
       ([Contours (''avg'', ''out'')
          \<lparr>index_values = [1, 3], column_values = [2, 4],
           cells = [[Some 10, Some 6], [None, Some 5]]\<rparr>], None)"
proof -
  let ?i = "\<lambda>r :: (real \<times> real) \<times> real. fst (fst r)"
  let ?c = "\<lambda>r :: (real \<times> real) \<times> real. snd (fst r)"
  let ?dup = "[((1, 2), 10), ((1, 2), 20)] :: ((real \<times> real) \<times> real) list"
  let ?ok = "[((1, 2), 10), ((3, 4), 5), ((1, 4), 6)] :: ((real \<times> real) \<times> real) list"
  have nd: "\<not> distinct (map (\<lambda>r. (?i r, ?c r)) ?dup)" by simp
  have d: "distinct (map (\<lambda>r. (?i r, ?c r)) ?ok)" by simp
  note t1 = pivot_rejects_duplicates [of ?i ?c ?dup snd "(''avg'', ''out'')" "[]",
      THEN conjunct1, rule_format, OF nd]
  note t2 = pivot_rejects_duplicates [of ?i ?c ?ok snd "(''avg'', ''out'')" "[]",
      THEN conjunct2, rule_format, OF d]
  from t2 obtain g where
        gi: "index_values g = sort (remdups (map ?i ?ok))"
    and gc: "column_values g = sort (remdups (map ?c ?ok))"
    and l1: "length (cells g) = length (index_values g)"
    and l2: "\<forall>i < length (index_values g). length (cells g ! i) = length (column_values g)"
    and c1: "\<forall>r\<in>set ?ok. \<forall>i < length (index_values g). \<forall>j < length (column_values g).
                 index_values g ! i = ?i r \<and> column_values g ! j = ?c r \<longrightarrow>
                 cells g ! i ! j = Some (snd r)"
    and c2: "\<forall>i < length (index_values g). \<forall>j < length (column_values g).
                 (\<forall>r\<in>set ?ok. (?i r, ?c r) \<noteq> (index_values g ! i, column_values g ! j)) \<longrightarrow>
                 cells g ! i ! j = None"
    and h: "save_heatmap ?ok ?i ?c snd (''avg'', ''out'') [] =
                (if ?ok = [] then ([], Some ValueError)
                 else ([] @ [Heatmap (''avg'', ''out'') g], None))"
    and c: "save_contour_plot ?ok ?i ?c snd (''avg'', ''out'') [] =
                (if length (index_values g) < 2 \<or> length (column_values g) < 2
                 then ([], Some TypeError) else ([] @ [Contours (''avg'', ''out'') g], None))"
    by (elim exE conjE)
  have gi': "index_values g = [1, 3]" unfolding gi by simp
  have gc': "column_values g = [2, 4]" unfolding gc by simp
  from l1 have n: "length (cells g) = 2" unfolding gi' by simp
  from l2 have n0: "length (cells g ! 0) = 2" and n1: "length (cells g ! 1) = 2"
    unfolding gi' gc' by simp_all
  from c1 have c00: "cells g ! 0 ! 0 = Some 10" and c01: "cells g ! 0 ! 1 = Some 6"
    and c11: "cells g ! 1 ! 1 = Some 5"
    unfolding gi' gc' by simp_all
  from c2 have c10: "cells g ! 1 ! 0 = None"
    unfolding gi' gc' by simp
  have "cells g = [cells g ! 0, cells g ! 1]"
    using n by (auto simp: list_eq_iff_nth_eq less_Suc_eq numeral_2_eq_2)
  moreover have "cells g ! 0 = [Some 10, Some 6]"
    using n0 c00 c01 by (auto simp: list_eq_iff_nth_eq less_Suc_eq numeral_2_eq_2)
  moreover have "cells g ! 1 = [None, Some 5]"
    using n1 c10 c11 by (auto simp: list_eq_iff_nth_eq less_Suc_eq numeral_2_eq_2)
  ultimately have gv': "cells g = [[Some 10, Some 6], [None, Some 5]]" by simp
  from gi' gc' gv' have g: "g = \<lparr>index_values = [1, 3], column_values = [2, 4],
      cells = [[Some 10, Some 6], [None, Some 5]]\<rparr>" by (cases g) simp
  from h have h': "save_heatmap ?ok ?i ?c snd (''avg'', ''out'') [] =
       ([Heatmap (''avg'', ''out'')
          \<lparr>index_values = [1, 3], column_values = [2, 4],
           cells = [[Some 10, Some 6], [None, Some 5]]\<rparr>], None)"
    unfolding g by simp
  from c have c': "save_contour_plot ?ok ?i ?c snd (''avg'', ''out'') [] =
       ([Contours (''avg'', ''out'')
          \<lparr>index_values = [1, 3], column_values = [2, 4],
           cells = [[Some 10, Some 6], [None, Some 5]]\<rparr>], None)"
    unfolding g by simp
  from t1 h' c' show ?thesis by (intro conjI) (erule conjunct1, erule conjunct2)
qed

subsection \<open>Route renderer\<close>

lemma orders_dict_foldl:
  "foldl (\<lambda>m ord. m(order_id ord \<mapsto> (lat ord, lon ord))) m0 orders k =
     (case find (\<lambda>x. order_id x = k) (rev orders) of
        Some x \<Rightarrow> Some (lat x, lon x)
      | None \<Rightarrow> m0 k)"
  by (induction orders rule: rev_induct) auto

lemma reformat_locations_eq:
  "reformat_locations locations =
     (fst (equi_rect_project (map lat locations) (map lon locations)),
      snd (equi_rect_project (map lat locations) (map lon locations)),
      foldl (\<lambda>m ord. m(order_id ord \<mapsto> (lat ord, lon ord))) Map.empty locations)"
  by (simp add: reformat_locations_def Let_def case_prod_beta)

lemma orders_dict_find:
  "snd (snd (reformat_locations locations)) k =
     map_option (\<lambda>x. (lat x, lon x)) (find (\<lambda>x. order_id x = k) (rev locations))"
  by (simp add: reformat_locations_eq orders_dict_foldl split: option.splits)

lemma orders_dict_None:
  "(snd (snd (reformat_locations locations)) k = None) = (k \<notin> order_id ` set locations)"
  by (auto simp: orders_dict_find find_None_iff image_iff)

lemma create_graph_eq:
  "create_graph locations rt folder_name file_name fs =
     (case add_lines [rt] (snd (snd (reformat_locations locations))) of
        Inl e \<Rightarrow> (fs, Some e)
      | Inr arrows \<Rightarrow>
          (fs @ [RoutePng folder_name file_name
                   (snd (equi_rect_project (map lat locations) (map lon locations)),
                    fst (equi_rect_project (map lat locations) (map lon locations))) arrows], None))"
  by (simp add: create_graph_def reformat_locations_eq Let_def)

lemma add_route_find:
  "add_route d rt js acc =
     (case find (\<lambda>i. d (rt ! i) = None \<or> d (rt ! (i + 1)) = None) js of
        Some i \<Rightarrow> Inl (KeyError (if d (rt ! i) = None then rt ! i else rt ! (i + 1)))
      | None \<Rightarrow>
          Inr \<lparr>start_longs = start_longs acc @ map (\<lambda>i. snd (the (d (rt ! i)))) js,
               start_lat = start_lat acc @ map (\<lambda>i. fst (the (d (rt ! i)))) js,
               end_longs = end_longs acc @ map (\<lambda>i. snd (the (d (rt ! (i + 1))))) js,
               end_lats = end_lats acc @ map (\<lambda>i. fst (the (d (rt ! (i + 1))))) js\<rparr>)"
  by (induction js arbitrary: acc) (auto simp: Let_def split: option.splits)

lemma add_lines_ok:
  assumes "\<forall>i < length rt - 1. d (rt ! i) \<noteq> None \<and> d (rt ! (i + 1)) \<noteq> None"
  shows "add_lines [rt] d =
     Inr (map (\<lambda>i. \<lparr>xy = (r_earth * radians (snd (the (d (rt ! (i + 1))))) * cos (radians centre_point_deg),
                       r_earth * radians (fst (the (d (rt ! (i + 1)))))),
                 xytext = (r_earth * radians (snd (the (d (rt ! i)))) * cos (radians centre_point_deg),
                           r_earth * radians (fst (the (d (rt ! i)))))\<rparr>)
              [0..<length rt - 1])"
proof -
  have "find (\<lambda>i. d (rt ! i) = None \<or> d (rt ! (i + 1)) = None) [0..<length rt - 1] = None"
    using assms by (simp add: find_None_iff)
  then show ?thesis
    by (simp add: add_lines_def add_route_find fst_equi_rect_project snd_equi_rect_project
        case_prod_beta Let_def)
qed

lemma add_lines_KeyError:
  assumes "2 \<le> length rt" and "find (\<lambda>k. d k = None) rt = Some k"
  shows "add_lines [rt] d = Inl (KeyError k)"
proof -
  let ?bad = "\<lambda>i. d (rt ! i) = None \<or> d (rt ! (i + 1)) = None"
  from assms(2) obtain p where p: "p < length rt" "d (rt ! p) = None" "k = rt ! p"
    "\<forall>j<p. d (rt ! j) \<noteq> None"
    by (auto simp: find_Some_iff)
  define i where "i = p - 1"
  have i: "i < length rt - 1" using p(1) assms(1) by (cases p) (auto simp: i_def)
  have b: "?bad i" using p(2) by (cases p) (auto simp: i_def)
  have n: "\<not> ?bad j" if "j < i" for j
    using that p(4) by (auto simp: i_def)
  have e: "(if d (rt ! i) = None then rt ! i else rt ! (i + 1)) = k"
    using p(2,3,4) by (cases p) (auto simp: i_def)
  have "find ?bad [0..<length rt - 1] = Some i"
    unfolding find_Some_iff
    apply (rule exI [of _ i])
    using i b n by simp
  then show ?thesis
    using e by (simp add: add_lines_def add_route_find)
qed

text \<open>
  Claim C5. When every identifier of a route is the order_id of some location, the route
  renderer returns and saves one image, on which it has drawn as many arrows as the route
  has consecutive pairs of stops: N - 1 for a route of N stops, none for an empty route.
  The i-th arrow starts (xytext) at the projection of stop i and ends (xy) at the projection
  of stop i + 1, a stop's coordinates being those of the last location listed with its
  identifier, as the dictionary of the source keeps them.
\<close>

theorem create_graph_draws_arrows:
  assumes "set rt \<subseteq> order_id ` set locations"
  shows "\<exists>arrows.
      add_lines [rt] (snd (snd (reformat_locations locations))) = Inr arrows
    \<and> create_graph locations rt folder_name file_name fs =
        (fs @ [RoutePng folder_name file_name
                 (snd (equi_rect_project (map lat locations) (map lon locations)),
                  fst (equi_rect_project (map lat locations) (map lon locations))) arrows], None)
    \<and> length arrows = length rt - 1
    \<and> (\<forall>i < length rt - 1. \<exists>s e.
          find (\<lambda>x. order_id x = rt ! i) (rev locations) = Some s
        \<and> find (\<lambda>x. order_id x = rt ! (i + 1)) (rev locations) = Some e
        \<and> equi_rect_project [lat s] [lon s] =
            ([snd (xytext (arrows ! i))], [fst (xytext (arrows ! i))])
        \<and> equi_rect_project [lat e] [lon e] =
            ([snd (xy (arrows ! i))], [fst (xy (arrows ! i))]))"
proof -
  let ?d = "snd (snd (reformat_locations locations))"
  let ?arrow = "\<lambda>i. \<lparr>xy = (r_earth * radians (snd (the (?d (rt ! (i + 1))))) * cos (radians centre_point_deg),
                       r_earth * radians (fst (the (?d (rt ! (i + 1)))))),
                 xytext = (r_earth * radians (snd (the (?d (rt ! i)))) * cos (radians centre_point_deg),
                           r_earth * radians (fst (the (?d (rt ! i)))))\<rparr>"
  let ?arrows = "map ?arrow [0..<length rt - 1]"
  have dom: "?d (rt ! i) \<noteq> None" if "i < length rt" for i
  proof -
    from that assms have "rt ! i \<in> order_id ` set locations" by (metis nth_mem subsetD)
    then show ?thesis by (simp only: orders_dict_None simp_thms)
  qed
  have "\<forall>i < length rt - 1. ?d (rt ! i) \<noteq> None \<and> ?d (rt ! (i + 1)) \<noteq> None"
  proof (intro allI impI)
    fix i assume "i < length rt - 1"
    then have i: "i < length rt" "i + 1 < length rt" by simp_all
    have "?d (rt ! i) \<noteq> None" by (rule dom [OF i(1)])
    moreover have "?d (rt ! (i + 1)) \<noteq> None" by (rule dom [OF i(2)])
    ultimately show "?d (rt ! i) \<noteq> None \<and> ?d (rt ! (i + 1)) \<noteq> None" ..
  qed
  then have a: "add_lines [rt] ?d = Inr ?arrows" by (rule add_lines_ok)
  then have g: "create_graph locations rt folder_name file_name fs =
        (fs @ [RoutePng folder_name file_name
                 (snd (equi_rect_project (map lat locations) (map lon locations)),
                  fst (equi_rect_project (map lat locations) (map lon locations))) ?arrows], None)"
    by (simp only: create_graph_eq sum.case)
  have l: "length ?arrows = length rt - 1" by simp
  have p: "equi_rect_project [la] [lo] =
      ([r_earth * radians la], [r_earth * radians lo * cos (radians centre_point_deg)])" for la lo
    by (simp add: equi_rect_project_def Let_def)
  have st: "\<exists>s. find (\<lambda>x. order_id x = rt ! i) (rev locations) = Some s
        \<and> ?d (rt ! i) = Some (lat s, lon s)" if "i < length rt" for i
    using dom [OF that] by (auto simp: orders_dict_find)
  have ar: "\<exists>s e.
          find (\<lambda>x. order_id x = rt ! i) (rev locations) = Some s
        \<and> find (\<lambda>x. order_id x = rt ! (i + 1)) (rev locations) = Some e
        \<and> equi_rect_project [lat s] [lon s] =
            ([snd (xytext (?arrows ! i))], [fst (xytext (?arrows ! i))])
        \<and> equi_rect_project [lat e] [lon e] =
            ([snd (xy (?arrows ! i))], [fst (xy (?arrows ! i))])"
    if i: "i < length rt - 1" for i
  proof -
    from i have "i < length rt" "i + 1 < length rt" by simp_all
    from st [OF this(1)] st [OF this(2)] obtain s e where
      s: "find (\<lambda>x. order_id x = rt ! i) (rev locations) = Some s" "?d (rt ! i) = Some (lat s, lon s)"
      and e: "find (\<lambda>x. order_id x = rt ! (i + 1)) (rev locations) = Some e"
        "?d (rt ! (i + 1)) = Some (lat e, lon e)"
      by blast
    from i have n: "?arrows ! i = ?arrow i" by simp
    have "equi_rect_project [lat s] [lon s] =
            ([snd (xytext (?arrows ! i))], [fst (xytext (?arrows ! i))])"
      unfolding n p using s(2) by simp
    moreover have "equi_rect_project [lat e] [lon e] =
            ([snd (xy (?arrows ! i))], [fst (xy (?arrows ! i))])"
      unfolding n p using e(2) by simp
    ultimately show ?thesis using s(1) e(1) by blast
  qed
  show ?thesis
    apply (rule exI [of _ ?arrows])
    apply (intro conjI allI impI)
       apply (rule a)
      apply (rule g)
     apply (rule l)
    apply (erule ar)
    done
qed

theorem create_graph_draws_arrows_witness:
  "create_graph [\<lparr>order_id = 1, lat = 0, lon = 0\<rparr>, \<lparr>order_id = 2, lat = 0, lon = 1\<rparr>] [1, 2]
      ''routes'' (1, 2, 0, 10) [] =
     ([RoutePng ''routes'' (1, 2, 0, 10)
         ([0, r_earth * radians 1 * cos (radians centre_point_deg)], [0, 0])
         [\<lparr>xy = (r_earth * radians 1 * cos (radians centre_point_deg), 0), xytext = (0, 0)\<rparr>]],
      None)"
proof -
  let ?locs = "[\<lparr>order_id = 1, lat = 0, lon = 0\<rparr>, \<lparr>order_id = 2, lat = 0, lon = 1\<rparr>]"
  have h: "set [1, 2] \<subseteq> order_id ` set ?locs" by simp
  have p: "equi_rect_project [la] [lo] =
      ([r_earth * radians la], [r_earth * radians lo * cos (radians centre_point_deg)])" for la lo
    by (simp add: equi_rect_project_def Let_def)
  have sc: "equi_rect_project (map lat ?locs) (map lon ?locs) =
      ([0, 0], [0, r_earth * radians 1 * cos (radians centre_point_deg)])"
    by (simp add: equi_rect_project_def Let_def radians_def)
  from create_graph_draws_arrows [OF h, of "''routes''" "(1, 2, 0, 10)" "[]"] obtain arrows where
        cg: "create_graph ?locs [1, 2] ''routes'' (1, 2, 0, 10) [] =
        ([] @ [RoutePng ''routes'' (1, 2, 0, 10)
                 (snd (equi_rect_project (map lat ?locs) (map lon ?locs)),
                  fst (equi_rect_project (map lat ?locs) (map lon ?locs))) arrows], None)"
    and len: "length arrows = length [1, 2 :: int] - 1"
    and ar: "\<forall>i < length [1, 2 :: int] - 1. \<exists>s e.
          find (\<lambda>x. order_id x = [1, 2] ! i) (rev ?locs) = Some s
        \<and> find (\<lambda>x. order_id x = [1, 2] ! (i + 1)) (rev ?locs) = Some e
        \<and> equi_rect_project [lat s] [lon s] =
            ([snd (xytext (arrows ! i))], [fst (xytext (arrows ! i))])
        \<and> equi_rect_project [lat e] [lon e] =
            ([snd (xy (arrows ! i))], [fst (xy (arrows ! i))])"
    by (elim exE conjE)
  from len obtain a where a: "arrows = [a]"
    by (cases arrows) auto
  have "(0 :: nat) < length [1, 2 :: int] - 1" by simp
  with ar obtain s e where
        s: "find (\<lambda>x. order_id x = [1, 2] ! 0) (rev ?locs) = Some s"
    and e: "find (\<lambda>x. order_id x = [1, 2] ! (0 + 1)) (rev ?locs) = Some e"
    and ps: "equi_rect_project [lat s] [lon s] =
            ([snd (xytext (arrows ! 0))], [fst (xytext (arrows ! 0))])"
    and pe: "equi_rect_project [lat e] [lon e] =
            ([snd (xy (arrows ! 0))], [fst (xy (arrows ! 0))])"
    by blast
  from s have s': "s = \<lparr>order_id = 1, lat = 0, lon = 0\<rparr>" by simp
  from e have e': "e = \<lparr>order_id = 2, lat = 0, lon = 1\<rparr>" by simp
  from ps have "xytext a = (0, 0)"
    unfolding p a s' by (simp add: prod_eq_iff radians_def)
  moreover from pe have "xy a = (r_earth * radians 1 * cos (radians centre_point_deg), 0)"
    unfolding p a e' by (simp add: prod_eq_iff radians_def)
  ultimately have "a = \<lparr>xy = (r_earth * radians 1 * cos (radians centre_point_deg), 0), xytext = (0, 0)\<rparr>"
    by (cases a) simp
  with cg show ?thesis unfolding a sc by simp
qed

text \<open>
  Claim C6, as the specification states it: rendering a route fails with a lookup error
  whenever the route contains an identifier absent from the locations. A route of a single
  stop is never looked up: with the absent identifier 99 the image is saved, without
  arrows and without error.
\<close>

theorem create_graph_unknown_id_counterexample:
  "99 \<notin> order_id ` set [\<lparr>order_id = 1, lat = 0, lon = 0\<rparr>]
   \<and> create_graph [\<lparr>order_id = 1, lat = 0, lon = 0\<rparr>] [99] ''routes'' (1, 2, 0, 10) [] =
       ([RoutePng ''routes'' (1, 2, 0, 10) ([0], [0]) []], None)"
  by (simp add: create_graph_eq add_lines_def equi_rect_project_def Let_def radians_def)

text \<open>
  Claim C6, amended: rendering a route of at least two stops that contains an absent
  identifier ends in KeyError of the first such identifier of the route, and no image is
  saved; rendering returns without error and saves the image whenever every identifier of
  the route exists, and also whenever the route has fewer than two stops.
\<close>

theorem create_graph_unknown_id:
  "(2 \<le> length rt \<and> find (\<lambda>k. k \<notin> order_id ` set locations) rt = Some k \<longrightarrow>
        add_lines [rt] (snd (snd (reformat_locations locations))) = Inl (KeyError k)
      \<and> create_graph locations rt folder_name file_name fs = (fs, Some (KeyError k)))
   \<and> (set rt \<subseteq> order_id ` set locations \<or> length rt < 2 \<longrightarrow>
        (\<exists>arrows. length arrows = length rt - 1
           \<and> create_graph locations rt folder_name file_name fs =
               (fs @ [RoutePng folder_name file_name
                 (snd (equi_rect_project (map lat locations) (map lon locations)),
                  fst (equi_rect_project (map lat locations) (map lon locations))) arrows], None)))"
proof -
  let ?d = "snd (snd (reformat_locations locations))"
  have bad: "add_lines [rt] ?d = Inl (KeyError k)
      \<and> create_graph locations rt folder_name file_name fs = (fs, Some (KeyError k))"
    if "2 \<le> length rt \<and> find (\<lambda>k. k \<notin> order_id ` set locations) rt = Some k"
  proof -
    from that have n: "2 \<le> length rt" and "find (\<lambda>k. k \<notin> order_id ` set locations) rt = Some k"
      by simp_all
    then have "find (\<lambda>k. ?d k = None) rt = Some k"
      by (simp only: orders_dict_None)
    with n have a: "add_lines [rt] ?d = Inl (KeyError k)" by (rule add_lines_KeyError)
    then have "create_graph locations rt folder_name file_name fs = (fs, Some (KeyError k))"
      by (simp only: create_graph_eq sum.case)
    with a show ?thesis ..
  qed
  have ok: "\<exists>arrows. length arrows = length rt - 1
           \<and> create_graph locations rt folder_name file_name fs =
               (fs @ [RoutePng folder_name file_name
                 (snd (equi_rect_project (map lat locations) (map lon locations)),
                  fst (equi_rect_project (map lat locations) (map lon locations))) arrows], None)"
    if h: "set rt \<subseteq> order_id ` set locations \<or> length rt < 2"
  proof -
    have "\<forall>i < length rt - 1. ?d (rt ! i) \<noteq> None \<and> ?d (rt ! (i + 1)) \<noteq> None"
    proof (intro allI impI)
      fix i assume i: "i < length rt - 1"
      then have "\<not> length rt < 2" by simp
      with h have s: "set rt \<subseteq> order_id ` set locations" by simp
      from i have "rt ! i \<in> set rt" "rt ! (i + 1) \<in> set rt" by simp_all
      with s have "rt ! i \<in> order_id ` set locations" "rt ! (i + 1) \<in> order_id ` set locations"
        by blast+
      then show "?d (rt ! i) \<noteq> None \<and> ?d (rt ! (i + 1)) \<noteq> None"
        by (simp only: orders_dict_None simp_thms)
    qed
    from add_lines_ok [OF this] show ?thesis
      by (simp only: create_graph_eq sum.case) (rule exI, rule conjI [OF _ refl], simp)
  qed
  show ?thesis
    apply (rule conjI)
     apply (rule impI)
     apply (erule bad)
    apply (rule impI)
    apply (erule ok)
    done
qed

theorem create_graph_unknown_id_witness:
  "create_graph [\<lparr>order_id = 1, lat = 0, lon = 0\<rparr>, \<lparr>order_id = 2, lat = 0, lon = 1\<rparr>] [1, 7, 2]
      ''routes'' (1, 2, 0, 10) [] = ([], Some (KeyError 7))
   \<and> snd (create_graph [\<lparr>order_id = 1, lat = 0, lon = 0\<rparr>, \<lparr>order_id = 2, lat = 0, lon = 1\<rparr>] [1, 2]
      ''routes'' (1, 2, 0, 10) []) = None
   \<and> snd (create_graph [\<lparr>order_id = 1, lat = 0, lon = 0\<rparr>, \<lparr>order_id = 2, lat = 0, lon = 1\<rparr>] [99]
      ''routes'' (1, 2, 0, 10) []) = None"
proof -
  let ?locs = "[\<lparr>order_id = 1, lat = 0, lon = 0\<rparr>, \<lparr>order_id = 2, lat = 0, lon = 1\<rparr>]"
  have h1: "2 \<le> length [1, 7, 2 :: int]
      \<and> find (\<lambda>k. k \<notin> order_id ` set ?locs) [1, 7, 2] = Some 7" by simp
  have h2: "set [1, 2] \<subseteq> order_id ` set ?locs \<or> length [1, 2 :: int] < 2" by simp
  have h3: "set [99] \<subseteq> order_id ` set ?locs \<or> length [99 :: int] < 2" by simp
  note t1 = create_graph_unknown_id [of "[1, 7, 2]" ?locs 7 "''routes''" "(1, 2, 0, 10)" "[]",
      THEN conjunct1, rule_format, OF h1, THEN conjunct2]
  note t2 = create_graph_unknown_id [of "[1, 2]" ?locs 7 "''routes''" "(1, 2, 0, 10)" "[]",
      THEN conjunct2, rule_format, OF h2]
  note t3 = create_graph_unknown_id [of "[99]" ?locs 7 "''routes''" "(1, 2, 0, 10)" "[]",
      THEN conjunct2, rule_format, OF h3]
  from t2 have b: "snd (create_graph ?locs [1, 2] ''routes'' (1, 2, 0, 10) []) = None"
    by (elim exE conjE) (simp only: snd_conv)
  from t3 have c: "snd (create_graph ?locs [99] ''routes'' (1, 2, 0, 10) []) = None"
    by (elim exE conjE) (simp only: snd_conv)
  from t1 b c show ?thesis by (intro conjI)
qed

end
